theory Spec2Isabelle
  imports Main
begin

section \<open>The JavaScript runtime, as far as \<^verbatim>\<open>src/objects.js\<close> calls it\<close>

text \<open>
  A JavaScript string is a sequence of code units. It is modelled as a HOL \<^typ>\<open>string\<close>,
  one \<^typ>\<open>char\<close> for one code unit: every string operation of the module (splitting on
  the one-unit separator \<^verbatim>\<open>'/'\<close>, joining, \<^verbatim>\<open>endsWith('Z')\<close>, \<^verbatim>\<open>slice(0, 10)\<close>) works unit by
  unit and never looks at the width of a unit.
\<close>

text \<open>
  Modelled from the spec: the error class \<^verbatim>\<open>InvalidValue\<close>, which the module imports from
  \<^verbatim>\<open>./errors\<close>, a file that is not among the sources. The specification has it as the one
  error kind of the module, raised synchronously; the module constructs it with a message,
  which the model keeps. \<^verbatim>\<open>TypeError\<close> and \<^verbatim>\<open>RangeError\<close> are the errors the runtime raises
  (a method looked up on a value that has none, \<^verbatim>\<open>toISOString\<close> on an invalid \<^verbatim>\<open>Date\<close>).
\<close>

datatype error = InvalidValue string | TypeError | RangeError

subsection \<open>\<^verbatim>\<open>String.prototype.split\<close>, \<^verbatim>\<open>Array.prototype.join\<close>, \<^verbatim>\<open>slice\<close>, \<^verbatim>\<open>endsWith\<close>\<close>

text \<open>
  \<^verbatim>\<open>s.split(sep)\<close> for a separator of one code unit: the substrings between the
  occurrences of the separator, in order. The scan goes through the string once; \<open>cur\<close>
  is the substring read since the last separator, which is closed at the next separator
  and at the end of the string. The result is never empty: \<^verbatim>\<open>''.split('/')\<close> is \<^verbatim>\<open>['']\<close>.
\<close>

fun split_from :: "char \<Rightarrow> string \<Rightarrow> string \<Rightarrow> string list" where
  "split_from sep cur [] = [cur]"
| "split_from sep cur (c # cs) =
     (if c = sep then cur # split_from sep [] cs else split_from sep (cur @ [c]) cs)"

definition String_split :: "char \<Rightarrow> string \<Rightarrow> string list" where
  "String_split sep s = split_from sep [] s"

text \<open>
  \<^verbatim>\<open>parts.join(sep)\<close> on elements that are already strings: the elements with the
  separator between each two; the empty array gives the empty string.
\<close>

fun Array_join :: "string \<Rightarrow> string list \<Rightarrow> string" where
  "Array_join sep [] = []"
| "Array_join sep [x] = x"
| "Array_join sep (x # y # ys) = x @ sep @ Array_join sep (y # ys)"

text \<open>
  \<^verbatim>\<open>xs.slice(start, end)\<close>, of arrays and of strings alike: a negative bound counts from
  the end, both bounds are clamped to the length, and an empty range gives the empty
  sequence.
\<close>

definition slice :: "'a list \<Rightarrow> int \<Rightarrow> int \<Rightarrow> 'a list" where
  "slice xs start fin =
     (let len = int (length xs);
          from = (if start < 0 then max (len + start) 0 else min start len);
          to = (if fin < 0 then max (len + fin) 0 else min fin len)
      in take (nat (to - from)) (drop (nat from) xs))"

text \<open>\<^verbatim>\<open>s.endsWith(t)\<close>: the last \<^verbatim>\<open>t.length\<close> code units of \<^verbatim>\<open>s\<close> are \<^verbatim>\<open>t\<close>.\<close>

definition String_endsWith :: "string \<Rightarrow> string \<Rightarrow> bool" where
  "String_endsWith s t =
     (if length s < length t then False else drop (length s - length t) s = t)"

subsection \<open>\<^verbatim>\<open>Date\<close> and \<^verbatim>\<open>Date.prototype.toISOString\<close>\<close>

text \<open>
  A \<^verbatim>\<open>Date\<close> object holds a time value: a whole number of milliseconds since
  1970-01-01T00:00:00Z, or \<^verbatim>\<open>NaN\<close> (an invalid date, as \<^verbatim>\<open>new Date('garbage')\<close> builds). The
  runtime keeps valid time values within 8.64e15 of zero; the model does not need the
  bound.
\<close>

datatype Date = InvalidDate | TimeValue int

definition msPerDay :: int where
  "msPerDay = 86400000"

text \<open>
  The proleptic Gregorian year, month (1 to 12) and day of the month (1 to 31) of a day
  number, day 0 being 1970-01-01. Years are counted in eras of 400 years (146097 days)
  that start on 1 March, so that the leap day is the last day of a year.
\<close>

definition YearMonthDate :: "int \<Rightarrow> int \<times> int \<times> int" where
  "YearMonthDate day =
     (let z = day + 719468;
          era = z div 146097;
          doe = z mod 146097;
          yoe = (doe - doe div 1460 + doe div 36524 - doe div 146096) div 365;
          doy = doe - (365 * yoe + yoe div 4 - yoe div 100);
          mp = (5 * doy + 2) div 153;
          d = doy - (153 * mp + 2) div 5 + 1;
          m = (if mp < 10 then mp + 3 else mp - 9);
          y = yoe + era * 400 + (if m \<le> 2 then 1 else 0)
      in (y, m, d))"

definition digit :: "int \<Rightarrow> char" where
  "digit n = char_of (48 + n mod 10)"

text \<open>The last \<open>k\<close> decimal digits of \<open>n\<close>, zero-padded: the fields of a date-time string.\<close>

fun pad :: "nat \<Rightarrow> int \<Rightarrow> string" where
  "pad 0 n = []"
| "pad (Suc k) n = pad k (n div 10) @ [digit n]"

text \<open>
  The year of the date-time string format: four digits for the years 0 to 9999, a sign
  and six digits for every other year (the expanded years).
\<close>

definition YearString :: "int \<Rightarrow> string" where
  "YearString y =
     (if 0 \<le> y \<and> y \<le> 9999 then pad 4 y
      else (if y < 0 then CHR ''-'' else CHR ''+'') # pad 6 \<bar>y\<bar>)"

text \<open>
  \<^verbatim>\<open>d.toISOString()\<close>: \<^verbatim>\<open>YYYY-MM-DDTHH:mm:ss.sssZ\<close> in UTC; a \<^verbatim>\<open>RangeError\<close> for an invalid
  date.
\<close>

fun Date_toISOString :: "Date \<Rightarrow> error + string" where
  "Date_toISOString InvalidDate = Inl RangeError"
| "Date_toISOString (TimeValue t) =
     Inr (case YearMonthDate (t div msPerDay) of (y, m, d) \<Rightarrow>
            YearString y @ ''-'' @ pad 2 m @ ''-'' @ pad 2 d @ ''T''
            @ pad 2 (t div 3600000 mod 24) @ '':''
            @ pad 2 (t div 60000 mod 60) @ '':''
            @ pad 2 (t div 1000 mod 60) @ ''.''
            @ pad 3 (t mod 1000) @ ''Z'')"

section \<open>The classes of \<^verbatim>\<open>src/objects.js\<close>\<close>

text \<open>
  Each class is a record of its fields, each constructor and method a function. No method
  of the module assigns to a field; the two methods whose contract speaks of the receiver
  after the call (\<^verbatim>\<open>Ref.id\<close>, \<^verbatim>\<open>Page.mapData\<close>) return the receiver as the call leaves it
  together with the outcome of the call. An exception is the \<open>Inl\<close> of a sum.
\<close>

subsection \<open>\<^verbatim>\<open>Ref\<close>\<close>

record Ref =
  "value" :: string

text \<open>
  An argument of the \<^verbatim>\<open>Ref\<close> constructor, as its documentation has them: a string, or
  another \<^verbatim>\<open>Ref\<close>. \<^verbatim>\<open>join\<close> turns each element into a string; on a \<^verbatim>\<open>Ref\<close> that calls
  \<^verbatim>\<open>Ref.toString\<close>, which returns \<^verbatim>\<open>this.value\<close>.
\<close>

datatype segment = SegStr string | SegRef Ref

definition Ref_toString :: "Ref \<Rightarrow> string" where
  "Ref_toString this = Ref.value this"

definition Ref_valueOf :: "Ref \<Rightarrow> string" where
  "Ref_valueOf this = Ref.value this"

fun ToString :: "segment \<Rightarrow> string" where
  "ToString (SegStr s) = s"
| "ToString (SegRef r) = Ref_toString r"

text \<open>
  \<^verbatim>\<open>constructor() { const parts = Array.prototype.slice.call(arguments);
  this.value = parts.join('/') }\<close>
\<close>

definition Ref_new :: "segment list \<Rightarrow> Ref" where
  "Ref_new arguments =
     (let parts = arguments
      in \<lparr>Ref.value = Array_join ''/'' (map ToString parts)\<rparr>)"

text \<open>\<^verbatim>\<open>get class()\<close>\<close>

definition Ref_class :: "Ref \<Rightarrow> Ref" where
  "Ref_class this =
     (let parts = String_split (CHR ''/'') (Ref.value this)
      in if length parts = 1 then this
         else Ref_new [SegStr (Array_join ''/'' (slice parts 0 (int (length parts) - 1)))])"

text \<open>
  \<^verbatim>\<open>get id()\<close>. \<^verbatim>\<open>parts\<close> is never empty, so the index \<^verbatim>\<open>parts.length - 1\<close> is in range.
\<close>

definition Ref_id :: "Ref \<Rightarrow> Ref \<times> (error + string)" where
  "Ref_id this =
     (let parts = String_split (CHR ''/'') (Ref.value this)
      in if length parts = 1 then (this, Inl (InvalidValue ''The Ref does not have an id.''))
         else (this, Inr (parts ! (length parts - 1))))"

subsection \<open>The values the other classes hold\<close>

text \<open>
  The values of the language that the module stores, compares or tests with
  \<^verbatim>\<open>instanceof\<close>. An object literal, as \<^verbatim>\<open>toJSON\<close> returns one and \<^verbatim>\<open>Page.fromRaw\<close> reads one,
  is the list of its properties in order.
\<close>

datatype jsval =
    Undefined
  | Null
  | Str string
  | DateV Date
  | RefV Ref
  | Arr "jsval list"

type_synonym object = "(string \<times> jsval) list"

text \<open>Reading a property of an object literal: \<^verbatim>\<open>undefined\<close> when it has none of the name.\<close>

definition getProp :: "object \<Rightarrow> string \<Rightarrow> jsval" where
  "getProp obj k = (case map_of obj k of None \<Rightarrow> Undefined | Some v \<Rightarrow> v)"

text \<open>\<^verbatim>\<open>toJSON() { return {'@ref': this.value} }\<close>\<close>

definition Ref_toJSON :: "Ref \<Rightarrow> object" where
  "Ref_toJSON this = [(''@ref'', Str (Ref.value this))]"

text \<open>\<^verbatim>\<open>equals(other) { return other instanceof Ref && this.value === other.value }\<close>\<close>

fun Ref_equals :: "Ref \<Rightarrow> jsval \<Rightarrow> bool" where
  "Ref_equals this (RefV other) = (Ref.value this = Ref.value other)"
| "Ref_equals this other = False"

subsection \<open>\<^verbatim>\<open>SetRef\<close>\<close>

record SetRef =
  query :: jsval

definition SetRef_new :: "jsval \<Rightarrow> SetRef" where
  "SetRef_new q = \<lparr>query = q\<rparr>"

definition SetRef_toJSON :: "SetRef \<Rightarrow> object" where
  "SetRef_toJSON this = [(''@set'', query this)]"

subsection \<open>\<^verbatim>\<open>Page\<close>\<close>

record Page =
  data :: jsval
  before :: jsval
  after :: jsval

definition Page_new :: "jsval \<Rightarrow> jsval \<Rightarrow> jsval \<Rightarrow> Page" where
  "Page_new d b a = \<lparr>data = d, before = b, after = a\<rparr>"

definition Page_fromRaw :: "object \<Rightarrow> Page" where
  "Page_fromRaw obj = Page_new (getProp obj ''data'') (getProp obj ''before'') (getProp obj ''after'')"

text \<open>
  \<^verbatim>\<open>Array.prototype.map\<close> calls its callback with the element, its index and the array,
  once per element and in order, and collects the results in a new array.
\<close>

type_synonym callback = "jsval \<Rightarrow> nat \<Rightarrow> jsval list \<Rightarrow> jsval"

definition Array_map :: "callback \<Rightarrow> jsval list \<Rightarrow> jsval list" where
  "Array_map func xs = map (\<lambda>i. func (xs ! i) i xs) [0..<length xs]"

text \<open>
  \<^verbatim>\<open>mapData(func) { return new Page(this.data.map(func), this.before, this.after) }\<close>.
  Only an array has a \<^verbatim>\<open>map\<close> among the values above: on any other \<^verbatim>\<open>data\<close> the call
  \<^verbatim>\<open>this.data.map(func)\<close> is a \<^verbatim>\<open>TypeError\<close>.
\<close>

definition Page_mapData :: "Page \<Rightarrow> callback \<Rightarrow> Page \<times> (error + Page)" where
  "Page_mapData this func =
     (case data this of
        Arr xs \<Rightarrow> (this, Inr (Page_new (Arr (Array_map func xs)) (before this) (after this)))
      | _ \<Rightarrow> (this, Inl TypeError))"

text \<open>
  A transform from element to element, as a callback: it is handed the index and the
  array as well and ignores them.
\<close>

definition transform :: "(jsval \<Rightarrow> jsval) \<Rightarrow> callback" where
  "transform f = (\<lambda>x i arr. f x)"

subsection \<open>\<^verbatim>\<open>FaunaTime\<close>\<close>

record FaunaTime =
  "value" :: string

text \<open>
  \<^verbatim>\<open>constructor(value)\<close>. A value that is neither a \<^verbatim>\<open>Date\<close> nor a string has no
  \<^verbatim>\<open>endsWith\<close> to call: a \<^verbatim>\<open>TypeError\<close>.
\<close>

fun FaunaTime_new :: "jsval \<Rightarrow> error + FaunaTime" where
  "FaunaTime_new (DateV d) =
     (case Date_toISOString d of
        Inl e \<Rightarrow> Inl e
      | Inr s \<Rightarrow> Inr \<lparr>FaunaTime.value = s\<rparr>)"
| "FaunaTime_new (Str s) =
     (if \<not> String_endsWith s ''Z''
      then Inl (InvalidValue
             (''Only allowed timezone is '' @ [CHR 0x27, CHR ''Z'', CHR 0x27] @ '', got: '' @ s))
      else Inr \<lparr>FaunaTime.value = s\<rparr>)"
| "FaunaTime_new other = Inl TypeError"

definition FaunaTime_toJSON :: "FaunaTime \<Rightarrow> object" where
  "FaunaTime_toJSON this = [(''@ts'', Str (FaunaTime.value this))]"

subsection \<open>\<^verbatim>\<open>FaunaDate\<close>\<close>

record FaunaDate =
  "value" :: jsval

text \<open>\<^verbatim>\<open>constructor(value)\<close>: whatever is not a \<^verbatim>\<open>Date\<close> is stored as it is.\<close>

fun FaunaDate_new :: "jsval \<Rightarrow> error + FaunaDate" where
  "FaunaDate_new (DateV d) =
     (case Date_toISOString d of
        Inl e \<Rightarrow> Inl e
      | Inr s \<Rightarrow> Inr \<lparr>FaunaDate.value = Str (slice s 0 10)\<rparr>)"
| "FaunaDate_new other = Inr \<lparr>FaunaDate.value = other\<rparr>"

definition FaunaDate_toJSON :: "FaunaDate \<Rightarrow> object" where
  "FaunaDate_toJSON this = [(''@date'', FaunaDate.value this)]"

section \<open>The vocabulary of the properties\<close>

text \<open>A string begins, or ends, with the separator \<^verbatim>\<open>'/'\<close>.\<close>

definition leading_slash :: "string \<Rightarrow> bool" where
  "leading_slash s = (s \<noteq> [] \<and> hd s = CHR ''/'')"

definition trailing_slash :: "string \<Rightarrow> bool" where
  "trailing_slash s = (s \<noteq> [] \<and> last s = CHR ''/'')"

section \<open>Facts about the runtime functions\<close>

lemma split_from_acc:
  "split_from sep cur s = (cur @ hd (split_from sep [] s)) # tl (split_from sep [] s)"
proof (induction s arbitrary: cur)
  case Nil
  show ?case by simp
next
  case (Cons c cs)
  show ?case
  proof (cases "c = sep")
    case True
    then show ?thesis by simp
  next
    case False
    have "split_from sep (cur @ [c]) cs
          = ((cur @ [c]) @ hd (split_from sep [] cs)) # tl (split_from sep [] cs)"
      by (rule Cons.IH)
    moreover have "split_from sep [c] cs
          = ([c] @ hd (split_from sep [] cs)) # tl (split_from sep [] cs)"
      by (rule Cons.IH)
    ultimately show ?thesis using False by simp
  qed
qed

lemma String_split_Nil [simp]: "String_split sep [] = [[]]"
  by (simp add: String_split_def)

lemma String_split_Cons:
  "String_split sep (c # cs) =
     (if c = sep then [] # String_split sep cs
      else (c # hd (String_split sep cs)) # tl (String_split sep cs))"
  using split_from_acc [of sep "[c]" cs] by (simp add: String_split_def)

lemma split_not_Nil: "String_split c s \<noteq> []"
  by (induction s) (auto simp: String_split_Cons)

lemma length_split: "length (String_split c s) = Suc (length (filter (\<lambda>x. x = c) s))"
proof (induction s)
  case Nil
  show ?case by simp
next
  case (Cons x s)
  have "String_split c s \<noteq> []" by (rule split_not_Nil)
  then have "length (tl (String_split c s)) = length (String_split c s) - 1" by simp
  with Cons show ?case by (simp add: String_split_Cons)
qed

lemma length_split_one: "length (String_split c s) = 1 \<longleftrightarrow> c \<notin> set s"
  by (auto simp: length_split filter_empty_conv)

lemma split_no_sep: "p \<in> set (String_split c s) \<Longrightarrow> c \<notin> set p"
proof (induction s arbitrary: p)
  case Nil
  then show ?case by simp
next
  case (Cons x s)
  have ne: "String_split c s \<noteq> []" by (rule split_not_Nil)
  then obtain q qs where q: "String_split c s = q # qs" by (cases "String_split c s") auto
  with Cons show ?case by (auto simp: String_split_Cons split: if_splits)
qed

lemma join_Cons: "Array_join sep (x # xs) = x @ concat (map (\<lambda>s. sep @ s) xs)"
  by (induction xs arbitrary: x) auto

lemma join_snoc: "xs \<noteq> [] \<Longrightarrow> Array_join sep (xs @ [y]) = Array_join sep xs @ sep @ y"
  by (cases xs) (auto simp: join_Cons)

lemma join_split: "Array_join [c] (String_split c s) = s"
proof (induction s)
  case Nil
  show ?case by simp
next
  case (Cons x s)
  obtain q qs where q: "String_split c s = q # qs"
    using split_not_Nil [of c s] by (cases "String_split c s") auto
  with Cons show ?case by (auto simp: String_split_Cons join_Cons)
qed

lemma split_append_sep: "String_split c (a @ c # b) = String_split c a @ String_split c b"
proof (induction a)
  case Nil
  show ?case by (simp add: String_split_Cons)
next
  case (Cons x a)
  have "String_split c a \<noteq> []" by (rule split_not_Nil)
  with Cons show ?case by (simp add: String_split_Cons hd_append)
qed

lemma split_no_sep_id: "c \<notin> set s \<Longrightarrow> String_split c s = [s]"
  by (induction s) (auto simp: String_split_Cons)

lemma join_Cons_nonempty:
  "xs \<noteq> [] \<Longrightarrow> Array_join sep (x # xs) = x @ sep @ Array_join sep xs"
  by (cases xs) auto

lemma split_join:
  "xs \<noteq> [] \<Longrightarrow> (\<And>p. p \<in> set xs \<Longrightarrow> c \<notin> set p) \<Longrightarrow> String_split c (Array_join [c] xs) = xs"
proof (induction xs rule: list_nonempty_induct)
  case (single x)
  then show ?case by (simp add: split_no_sep_id)
next
  case (cons x xs)
  then show ?case by (simp add: join_Cons_nonempty split_append_sep split_no_sep_id)
qed

lemma slice_butlast: "slice xs 0 (int (length xs) - 1) = butlast xs"
  by (cases "xs = []") (auto simp: slice_def Let_def butlast_conv_take nat_diff_distrib')

lemma slice_take: "0 \<le> n \<Longrightarrow> slice xs 0 n = take (nat n) xs"
  by (auto simp: slice_def Let_def min_def)

lemma length_pad: "length (pad k n) = k"
  by (induction k arbitrary: n) auto

lemma endsWith_Z: "String_endsWith s ''Z'' \<longleftrightarrow> (\<exists>p. s = p @ ''Z'')"
proof
  assume a: "String_endsWith s ''Z''"
  then have "drop (length s - 1) s = ''Z''"
    by (auto simp: String_endsWith_def split: if_splits)
  then have "s = take (length s - 1) s @ ''Z''"
    by (metis append_take_drop_id)
  then show "\<exists>p. s = p @ ''Z''" ..
next
  assume "\<exists>p. s = p @ ''Z''"
  then show "String_endsWith s ''Z''"
    by (auto simp: String_endsWith_def)
qed

lemma join_append:
  "xs \<noteq> [] \<Longrightarrow> ys \<noteq> [] \<Longrightarrow>
   Array_join sep (xs @ ys) = Array_join sep xs @ sep @ Array_join sep ys"
  by (induction xs rule: list_nonempty_induct) (simp_all add: join_Cons_nonempty)

lemma leading_slash_join:
  "leading_slash (Array_join ''/'' xs) \<longleftrightarrow>
   xs \<noteq> [] \<and> (leading_slash (hd xs) \<or> hd xs = [] \<and> tl xs \<noteq> [])"
proof (cases xs)
  case Nil
  then show ?thesis by (simp add: leading_slash_def)
next
  case (Cons x ys)
  show ?thesis
  proof (cases "ys = []")
    case True
    with Cons show ?thesis by simp
  next
    case False
    with Cons show ?thesis
      by (cases x) (simp_all add: join_Cons_nonempty leading_slash_def)
  qed
qed

lemma trailing_slash_join:
  "trailing_slash (Array_join ''/'' xs) \<longleftrightarrow>
   xs \<noteq> [] \<and> (trailing_slash (last xs) \<or> last xs = [] \<and> butlast xs \<noteq> [])"
proof (cases xs rule: rev_cases)
  case Nil
  then show ?thesis by (simp add: trailing_slash_def)
next
  case (snoc ys y)
  show ?thesis
  proof (cases "ys = []")
    case True
    with snoc show ?thesis by simp
  next
    case False
    with snoc show ?thesis
      by (cases y rule: rev_cases) (simp_all add: join_snoc trailing_slash_def)
  qed
qed

lemma last_split_no_sep: "CHR ''/'' \<notin> set (last (String_split (CHR ''/'') s))"
  by (rule split_no_sep [OF last_in_set [OF split_not_Nil]])

lemma split_decompose:
  assumes "2 \<le> length (String_split c s)"
  shows "s = Array_join [c] (butlast (String_split c s)) @ [c] @ last (String_split c s)"
proof -
  let ?ps = "String_split c s"
  have ne: "?ps \<noteq> []" by (rule split_not_Nil)
  from assms ne have bne: "butlast ?ps \<noteq> []"
    by (cases ?ps rule: rev_cases) auto
  have "s = Array_join [c] (butlast ?ps @ [last ?ps])"
    using ne by (simp add: join_split)
  also have "\<dots> = Array_join [c] (butlast ?ps) @ [c] @ last ?ps"
    using bne by (rule join_snoc)
  finally show ?thesis .
qed

lemma Ref_new_single: "Ref_new [SegStr s] = \<lparr>Ref.value = s\<rparr>"
  by (simp add: Ref_new_def)

lemma Ref_class_value:
  "Ref.value (Ref_class r) =
     (if length (String_split (CHR ''/'') (Ref.value r)) = 1 then Ref.value r
      else Array_join ''/'' (butlast (String_split (CHR ''/'') (Ref.value r))))"
  by (simp add: Ref_class_def Let_def slice_butlast Ref_new_single)

lemma split_join_snoc:
  "String_split c (Array_join [c] (xs @ [y])) =
     (if xs = [] then String_split c y
      else String_split c (Array_join [c] xs) @ String_split c y)"
  by (simp add: join_snoc split_append_sep)

lemma length_split_two: "c \<in> set s \<Longrightarrow> 2 \<le> length (String_split c s)"
proof -
  assume "c \<in> set s"
  then have "filter (\<lambda>x. x = c) s \<noteq> []"
    by (auto simp: filter_empty_conv)
  then have "1 \<le> length (filter (\<lambda>x. x = c) s)"
    by (cases "filter (\<lambda>x. x = c) s") auto
  then show ?thesis
    by (simp add: length_split)
qed

lemma butlast_split_not_Nil: "c \<in> set s \<Longrightarrow> butlast (String_split c s) \<noteq> []"
  using length_split_two [of c s] by (cases "String_split c s" rule: rev_cases) auto

text \<open>The day numbers of some known dates, among them a leap day and the two ends of the
  range of time values.\<close>

lemma YearMonthDate_examples:
  "YearMonthDate 0 = (1970, 1, 1)"
  "YearMonthDate (- 1) = (1969, 12, 31)"
  "YearMonthDate 11016 = (2000, 2, 29)"
  "YearMonthDate 19523 = (2023, 6, 15)"
  "YearMonthDate (- 25567) = (1900, 1, 1)"
  "YearMonthDate 100000000 = (275760, 9, 13)"
  by code_simp+

lemma take_date_part:
  assumes "length yy = 4" "length mm = 2" "length dd = 2"
  shows "take 10 (yy @ ''-'' @ mm @ ''-'' @ dd @ rest) = yy @ ''-'' @ mm @ ''-'' @ dd"
  using assms by simp

lemma YearString_four: "0 \<le> y \<Longrightarrow> y \<le> 9999 \<Longrightarrow> YearString y = pad 4 y"
  by (simp add: YearString_def)

lemma ymd_example: "YearMonthDate (1686873599000 div msPerDay) = (2023, 6, 15)"
  by code_simp

lemma pad_example: "pad 4 2023 @ ''-'' @ pad 2 6 @ ''-'' @ pad 2 15 = ''2023-06-15''"
  by code_simp

lemma Array_map_transform: "Array_map (transform f) xs = map f xs"
  by (rule nth_equalityI) (simp_all add: Array_map_def transform_def)

lemma Page_mapData_not_array:
  "(\<And>xs. data P \<noteq> Arr xs) \<Longrightarrow> Page_mapData P func = (P, Inl TypeError)"
  by (cases "data P") (auto simp: Page_mapData_def)

section \<open>The properties of \<^verbatim>\<open>Ref\<close>\<close>

text \<open>
  C1, as the code has it. The constructor joins the string forms of its arguments and
  normalises nothing, so the stored \<^verbatim>\<open>value\<close> begins with a slash exactly when the first
  argument's string form begins with one, or is empty and further arguments follow; it
  ends with a slash exactly when the last argument's string form ends with one, or is
  empty and further arguments precede it. Arguments that are non-empty and carry no outer
  slash of their own therefore give a \<^verbatim>\<open>value\<close> with no leading and no trailing slash, and so
  does the empty argument list.
\<close>

theorem Ref_new_outer_slashes:
  "(leading_slash (Ref.value (Ref_new segs)) \<longleftrightarrow>
      segs \<noteq> [] \<and>
      (leading_slash (ToString (hd segs)) \<or> ToString (hd segs) = [] \<and> tl segs \<noteq> []))
   \<and> (trailing_slash (Ref.value (Ref_new segs)) \<longleftrightarrow>
      segs \<noteq> [] \<and>
      (trailing_slash (ToString (last segs)) \<or> ToString (last segs) = [] \<and> butlast segs \<noteq> []))"
proof (cases "segs = []")
  case True
  then show ?thesis
    by (simp add: Ref_new_def leading_slash_def trailing_slash_def)
next
  case False
  then show ?thesis
    by (simp add: Ref_new_def leading_slash_join trailing_slash_join hd_map last_map
        map_tl [symmetric] map_butlast [symmetric])
qed

text \<open>
  C1 as it is written (no \<^verbatim>\<open>value\<close> produced by construction has a leading or a trailing
  slash) fails: \<^verbatim>\<open>new Ref('', 'a')\<close> stores \<^verbatim>\<open>'/a'\<close>, the slash being the one the join puts in,
  and \<^verbatim>\<open>new Ref('a/')\<close> stores \<^verbatim>\<open>'a/'\<close>.
\<close>

theorem Ref_new_slash_counterexample:
  "leading_slash (Ref.value (Ref_new [SegStr '''', SegStr ''a'']))
   \<and> trailing_slash (Ref.value (Ref_new [SegStr ''a/'']))"
  by (simp add: Ref_new_def leading_slash_def trailing_slash_def)

text \<open>
  C7. The \<^verbatim>\<open>value\<close> of a \<^verbatim>\<open>Ref\<close> built from the string segments \<open>S\<close> is \<^verbatim>\<open>S.join('/')\<close>: the
  first segment, and every further segment after a slash. Nothing in it needs the
  segments to be non-empty. For any mix of arguments the \<^verbatim>\<open>value\<close> is the join of their
  string forms, and the string form of a \<^verbatim>\<open>Ref\<close> is its own \<^verbatim>\<open>value\<close>.
\<close>

theorem Ref_new_value_join:
  "Ref.value (Ref_new (map SegStr S)) = Array_join ''/'' S
   \<and> Ref.value (Ref_new (SegStr s # map SegStr S)) = s @ concat (map (\<lambda>x. ''/'' @ x) S)
   \<and> Ref.value (Ref_new segs) = Array_join ''/'' (map ToString segs)
   \<and> ToString (SegRef r) = Ref.value r"
  by (simp add: Ref_new_def Ref_toString_def comp_def join_Cons)

text \<open>
  C2. \<^verbatim>\<open>value.split('/')\<close> has at least one part. With exactly one part, \<^verbatim>\<open>class\<close> is the
  \<^verbatim>\<open>Ref\<close> itself. With two or more, the parts of the class's \<^verbatim>\<open>value\<close> are all the parts but
  the last, and the original \<^verbatim>\<open>value\<close> is the class's \<^verbatim>\<open>value\<close>, a slash and the last part,
  which holds no slash: the class's \<^verbatim>\<open>value\<close> is the original with its last segment and
  the slash before it removed.
\<close>

theorem Ref_class_removes_last_segment:
  "1 \<le> length (String_split (CHR ''/'') (Ref.value r))
   \<and> (length (String_split (CHR ''/'') (Ref.value r)) = 1 \<longrightarrow> Ref_class r = r)
   \<and> (2 \<le> length (String_split (CHR ''/'') (Ref.value r)) \<longrightarrow>
        String_split (CHR ''/'') (Ref.value (Ref_class r))
          = butlast (String_split (CHR ''/'') (Ref.value r))
        \<and> Ref.value r
          = Ref.value (Ref_class r) @ ''/'' @ last (String_split (CHR ''/'') (Ref.value r))
        \<and> CHR ''/'' \<notin> set (last (String_split (CHR ''/'') (Ref.value r))))"
proof (intro conjI impI)
  let ?ps = "String_split (CHR ''/'') (Ref.value r)"
  have ne: "?ps \<noteq> []" by (rule split_not_Nil)
  then show "1 \<le> length ?ps" by (cases ?ps) auto
  show "Ref_class r = r" if "length ?ps = 1"
    using that by (simp add: Ref_class_def)
  show "CHR ''/'' \<notin> set (last ?ps)" by (rule last_split_no_sep)
  assume two: "2 \<le> length ?ps"
  then have cls: "Ref.value (Ref_class r) = Array_join ''/'' (butlast ?ps)"
    by (simp add: Ref_class_value)
  from two ne have bne: "butlast ?ps \<noteq> []"
    by (cases ?ps rule: rev_cases) auto
  have "\<And>p. p \<in> set (butlast ?ps) \<Longrightarrow> CHR ''/'' \<notin> set p"
    by (meson in_set_butlastD split_no_sep)
  with bne show "String_split (CHR ''/'') (Ref.value (Ref_class r)) = butlast ?ps"
    unfolding cls by (rule split_join)
  show "Ref.value r = Ref.value (Ref_class r) @ ''/'' @ last ?ps"
    unfolding cls using split_decompose [OF two] by simp
qed

text \<open>
  The scenario of the specification: \<^verbatim>\<open>'databases/prydain'\<close> has two parts and its class
  has the one part \<^verbatim>\<open>'databases'\<close>; \<^verbatim>\<open>'databases'\<close> has one part and is its own class.
\<close>

theorem Ref_class_removes_last_segment_witness:
  "2 \<le> length (String_split (CHR ''/'') ''databases/prydain'')
   \<and> String_split (CHR ''/'') (Ref.value (Ref_class \<lparr>Ref.value = ''databases/prydain''\<rparr>))
       = [''databases'']
   \<and> length (String_split (CHR ''/'') ''databases'') = 1
   \<and> Ref_class \<lparr>Ref.value = ''databases''\<rparr> = \<lparr>Ref.value = ''databases''\<rparr>"
proof -
  have two: "2 \<le> length (String_split (CHR ''/'') (Ref.value \<lparr>Ref.value = ''databases/prydain''\<rparr>))"
    by (simp add: String_split_def)
  have one: "length (String_split (CHR ''/'') (Ref.value \<lparr>Ref.value = ''databases''\<rparr>)) = 1"
    by (simp add: String_split_def)
  have "String_split (CHR ''/'') (Ref.value (Ref_class \<lparr>Ref.value = ''databases/prydain''\<rparr>))
        = butlast (String_split (CHR ''/'') (Ref.value \<lparr>Ref.value = ''databases/prydain''\<rparr>))"
    using Ref_class_removes_last_segment [of "\<lparr>Ref.value = ''databases/prydain''\<rparr>"] two
    by blast
  moreover have "Ref_class \<lparr>Ref.value = ''databases''\<rparr> = \<lparr>Ref.value = ''databases''\<rparr>"
    using Ref_class_removes_last_segment [of "\<lparr>Ref.value = ''databases''\<rparr>"] one
    by blast
  ultimately show ?thesis
    by (simp add: String_split_def)
qed

text \<open>
  C3. \<^verbatim>\<open>id\<close> ends in an \<^verbatim>\<open>InvalidValue\<close> exactly when \<^verbatim>\<open>value.split('/')\<close> has one part, and
  it ends in no other error; exactly when there are more parts it returns the last of
  them; and the \<^verbatim>\<open>Ref\<close> is after the call what it was before, whether the call failed or
  not.
\<close>

theorem Ref_id_fails_iff_single_segment:
  "(length (String_split (CHR ''/'') (Ref.value r)) = 1 \<longleftrightarrow>
      (\<exists>msg. snd (Ref_id r) = Inl (InvalidValue msg)))
   \<and> (length (String_split (CHR ''/'') (Ref.value r)) = 1 \<longleftrightarrow> isl (snd (Ref_id r)))
   \<and> (length (String_split (CHR ''/'') (Ref.value r)) \<noteq> 1 \<longleftrightarrow>
      snd (Ref_id r) = Inr (last (String_split (CHR ''/'') (Ref.value r))))
   \<and> fst (Ref_id r) = r"
  using split_not_Nil [of "CHR ''/''" "Ref.value r"]
  by (simp add: Ref_id_def Let_def last_conv_nth)

text \<open>
  C6. \<^verbatim>\<open>equals\<close> is true exactly when the other operand is a \<^verbatim>\<open>Ref\<close> with the same
  \<^verbatim>\<open>value\<close>. It is therefore reflexive and symmetric on \<^verbatim>\<open>Ref\<close>s, and false on every
  operand that is no \<^verbatim>\<open>Ref\<close>, also on the string that is the \<^verbatim>\<open>value\<close> itself.
\<close>

theorem Ref_equals_iff:
  "(Ref_equals r other \<longleftrightarrow> (\<exists>r'. other = RefV r' \<and> Ref.value r' = Ref.value r))
   \<and> Ref_equals r (RefV r)
   \<and> (Ref_equals r (RefV r') \<longleftrightarrow> Ref_equals r' (RefV r))
   \<and> \<not> Ref_equals r (Str (Ref.value r))
   \<and> \<not> Ref_equals r Undefined \<and> \<not> Ref_equals r Null \<and> \<not> Ref_equals r (Str s)
   \<and> \<not> Ref_equals r (DateV d) \<and> \<not> Ref_equals r (Arr xs)"
  by (cases other) auto

text \<open>
  C10. Decomposition splits the joined string, not the argument list. When the string
  form of the last constructor argument holds a slash, \<^verbatim>\<open>id\<close> is only the part of it after
  its last slash, not the argument, and \<^verbatim>\<open>class\<close> keeps the rest of that argument: its
  \<^verbatim>\<open>value\<close> is that of the \<^verbatim>\<open>Ref\<close> built from the same leading arguments and the last
  argument without its last part.
\<close>

theorem Ref_decomposition_splits_inside_segment:
  assumes "CHR ''/'' \<in> set (ToString s)"
  shows "snd (Ref_id (Ref_new (pre @ [s])))
           = Inr (last (String_split (CHR ''/'') (ToString s)))
         \<and> snd (Ref_id (Ref_new (pre @ [s]))) \<noteq> Inr (ToString s)
         \<and> Ref.value (Ref_class (Ref_new (pre @ [s])))
           = Ref.value (Ref_new
               (pre @ [SegStr (Array_join ''/'' (butlast (String_split (CHR ''/'') (ToString s))))]))"
proof -
  let ?S = "ToString s"
  let ?A = "map ToString pre"
  let ?r = "Ref_new (pre @ [s])"
  let ?ps = "String_split (CHR ''/'') (Ref.value ?r)"
  let ?X = "if pre = [] then [] else String_split (CHR ''/'') (Array_join ''/'' ?A)"
  have v: "Ref.value ?r = Array_join ''/'' (?A @ [?S])"
    by (simp add: Ref_new_def)
  have ps: "?ps = ?X @ String_split (CHR ''/'') ?S"
    unfolding v by (simp add: split_join_snoc)
  have sne: "String_split (CHR ''/'') ?S \<noteq> []"
    by (rule split_not_Nil)
  have bne: "butlast (String_split (CHR ''/'') ?S) \<noteq> []"
    using assms by (rule butlast_split_not_Nil)
  have two: "2 \<le> length (String_split (CHR ''/'') ?S)"
    using assms by (rule length_split_two)
  then have len: "length ?ps \<noteq> 1"
    unfolding ps by simp
  have lst: "last ?ps = last (String_split (CHR ''/'') ?S)"
    unfolding ps using sne by simp
  have pne: "?ps \<noteq> []"
    by (rule split_not_Nil)
  have id: "snd (Ref_id ?r) = Inr (last (String_split (CHR ''/'') ?S))"
    using len pne lst by (simp add: Ref_id_def Let_def last_conv_nth)
  have "last (String_split (CHR ''/'') ?S) \<noteq> ?S"
    using assms last_split_no_sep [of ?S] by auto
  with id have neq: "snd (Ref_id ?r) \<noteq> Inr ?S"
    by simp
  have bl: "butlast ?ps = ?X @ butlast (String_split (CHR ''/'') ?S)"
    unfolding ps using sne by (simp add: butlast_append)
  have "Ref.value (Ref_class ?r) = Array_join ''/'' (butlast ?ps)"
    using len by (simp add: Ref_class_value)
  also have "\<dots> = Array_join ''/''
      (?A @ [Array_join ''/'' (butlast (String_split (CHR ''/'') ?S))])"
  proof (cases "pre = []")
    case True
    then show ?thesis unfolding bl by simp
  next
    case False
    then have "?X \<noteq> []" by (simp add: split_not_Nil)
    with bne False show ?thesis
      unfolding bl by (simp add: join_append join_snoc join_split)
  qed
  finally have cls: "Ref.value (Ref_class ?r)
      = Ref.value (Ref_new
          (pre @ [SegStr (Array_join ''/'' (butlast (String_split (CHR ''/'') ?S)))]))"
    by (simp add: Ref_new_def)
  from id neq cls show ?thesis by blast
qed

text \<open>
  The example of the source's own comment: \<^verbatim>\<open>new Ref('a', 'b/c')\<close> has the id \<^verbatim>\<open>'c'\<close>, not
  \<^verbatim>\<open>'b/c'\<close>, and the class \<^verbatim>\<open>'a/b'\<close>.
\<close>

theorem Ref_decomposition_splits_inside_segment_witness:
  "CHR ''/'' \<in> set (ToString (SegStr ''b/c''))
   \<and> snd (Ref_id (Ref_new [SegStr ''a'', SegStr ''b/c''])) = Inr ''c''
   \<and> snd (Ref_id (Ref_new [SegStr ''a'', SegStr ''b/c''])) \<noteq> Inr ''b/c''
   \<and> Ref.value (Ref_class (Ref_new [SegStr ''a'', SegStr ''b/c''])) = ''a/b''"
proof -
  have h: "CHR ''/'' \<in> set (ToString (SegStr ''b/c''))"
    by simp
  have e: "String_split (CHR ''/'') (ToString (SegStr ''b/c'')) = [''b'', ''c'']"
    by (simp add: String_split_def)
  show ?thesis
    using h Ref_decomposition_splits_inside_segment [OF h, of "[SegStr ''a'']"]
    unfolding e by (simp add: Ref_new_def)
qed

section \<open>The properties of \<^verbatim>\<open>Page\<close>\<close>

text \<open>
  C5. On a \<^verbatim>\<open>Page\<close> whose \<^verbatim>\<open>data\<close> is an array, as the class documents it (``always a
  list''), \<^verbatim>\<open>mapData\<close> with a transform \<open>f\<close> from element to element returns a \<^verbatim>\<open>Page\<close> whose
  \<^verbatim>\<open>data\<close> has the length of the original \<^verbatim>\<open>data\<close> and holds at each index \<open>f\<close> of the
  original element there, and whose \<^verbatim>\<open>before\<close> and \<^verbatim>\<open>after\<close> are the original's; the
  receiver is after the call what it was before.
\<close>

theorem Page_mapData_elementwise:
  assumes "data P = Arr xs"
  shows "\<exists>ys. Page_mapData P (transform f)
             = (P, Inr \<lparr>data = Arr ys, before = before P, after = after P\<rparr>)
           \<and> length ys = length xs
           \<and> (\<forall>i<length xs. ys ! i = f (xs ! i))"
  using assms by (simp add: Page_mapData_def Page_new_def Array_map_transform)

text \<open>
  A page of two elements with an \<^verbatim>\<open>after\<close> cursor, each element wrapped in an array. (On
  \<^verbatim>\<open>data\<close> that is no array the call ends in a \<^verbatim>\<open>TypeError\<close> and returns no page.)
\<close>

theorem Page_mapData_elementwise_witness:
  "data (Page_new (Arr [Str ''a'', Null]) Undefined (RefV \<lparr>Ref.value = ''classes/x''\<rparr>))
     = Arr [Str ''a'', Null]
   \<and> Page_mapData (Page_new (Arr [Str ''a'', Null]) Undefined (RefV \<lparr>Ref.value = ''classes/x''\<rparr>))
       (transform (\<lambda>x. Arr [x]))
     = (Page_new (Arr [Str ''a'', Null]) Undefined (RefV \<lparr>Ref.value = ''classes/x''\<rparr>),
        Inr (Page_new (Arr [Arr [Str ''a''], Arr [Null]]) Undefined
               (RefV \<lparr>Ref.value = ''classes/x''\<rparr>)))"
proof -
  let ?P = "Page_new (Arr [Str ''a'', Null]) Undefined (RefV \<lparr>Ref.value = ''classes/x''\<rparr>)"
  have d: "data ?P = Arr [Str ''a'', Null]"
    by (simp add: Page_new_def)
  obtain ys where
    r: "Page_mapData ?P (transform (\<lambda>x. Arr [x]))
          = (?P, Inr \<lparr>data = Arr ys, before = before ?P, after = after ?P\<rparr>)"
    and l: "length ys = length [Str ''a'', Null]"
    and e: "\<forall>i<length [Str ''a'', Null]. ys ! i = Arr [[Str ''a'', Null] ! i]"
    using Page_mapData_elementwise [OF d, of "\<lambda>x. Arr [x]"] by blast
  from e have "ys ! 0 = Arr [Str ''a'']" and "ys ! 1 = Arr [Null]"
    by simp_all
  with l have "ys = [Arr [Str ''a''], Arr [Null]]"
    by (cases ys; cases "tl ys") auto
  with r d show ?thesis
    by (simp add: Page_new_def)
qed

section \<open>The properties of \<^verbatim>\<open>FaunaTime\<close> and \<^verbatim>\<open>FaunaDate\<close>\<close>

text \<open>
  C4, as the code has it. On a string the constructor ends in an \<^verbatim>\<open>InvalidValue\<close> exactly
  when the string does not end with \<^verbatim>\<open>Z\<close>, and it ends in no other error; exactly a string
  that ends with \<^verbatim>\<open>Z\<close> is stored as it is. A valid \<^verbatim>\<open>Date\<close> (one whose time value is a number)
  is never tested for the \<^verbatim>\<open>Z\<close>: its \<^verbatim>\<open>toISOString()\<close> is stored.
\<close>

theorem FaunaTime_new_accepts_only_Z:
  "((\<exists>msg. FaunaTime_new (Str s) = Inl (InvalidValue msg)) \<longleftrightarrow> \<not> (\<exists>p. s = p @ ''Z''))
   \<and> (isl (FaunaTime_new (Str s)) \<longleftrightarrow> \<not> (\<exists>p. s = p @ ''Z''))
   \<and> (FaunaTime_new (Str s) = Inr \<lparr>FaunaTime.value = s\<rparr> \<longleftrightarrow> (\<exists>p. s = p @ ''Z''))
   \<and> (\<exists>iso. Date_toISOString (TimeValue t) = Inr iso
          \<and> FaunaTime_new (DateV (TimeValue t)) = Inr \<lparr>FaunaTime.value = iso\<rparr>)"
  by (simp add: endsWith_Z [symmetric])

text \<open>
  C4 as it is written (a native date-time input is converted instead of failing) fails on
  an invalid \<^verbatim>\<open>Date\<close>, such as \<^verbatim>\<open>new Date(NaN)\<close>: it is an instance of \<^verbatim>\<open>Date\<close>, so the
  constructor calls its \<^verbatim>\<open>toISOString()\<close>, which raises a \<^verbatim>\<open>RangeError\<close>.
\<close>

theorem FaunaTime_new_invalid_date: "FaunaTime_new (DateV InvalidDate) = Inl RangeError"
  by simp

text \<open>The examples of the specification, and the ISO form of a time value.\<close>

lemma FaunaTime_new_examples:
  "FaunaTime_new (Str ''2023-01-01T00:00:00.000Z'')
     = Inr \<lparr>FaunaTime.value = ''2023-01-01T00:00:00.000Z''\<rparr>"
  "isl (FaunaTime_new (Str ''2023-01-01T00:00:00.000+01:00''))"
  "FaunaTime_new (DateV (TimeValue 1686873599000))
     = Inr \<lparr>FaunaTime.value = ''2023-06-15T23:59:59.000Z''\<rparr>"
  by code_simp+

text \<open>
  C8, as the code has it. For a valid \<^verbatim>\<open>Date\<close> whose UTC year is one of 0 to 9999, the
  constructor stores the first ten characters of its \<^verbatim>\<open>toISOString()\<close>, and these are its
  date portion \<^verbatim>\<open>YYYY-MM-DD\<close>: the four digits of the year, the two of the month and the two
  of the day of the day number the time value falls in, whatever the time within that
  day. A string is stored as it is, without any check, and the call does not fail.
\<close>

theorem FaunaDate_new_date_part:
  "(YearMonthDate (t div msPerDay) = (y, m, d) \<and> 0 \<le> y \<and> y \<le> 9999 \<longrightarrow>
      (\<exists>iso. Date_toISOString (TimeValue t) = Inr iso
         \<and> FaunaDate_new (DateV (TimeValue t)) = Inr \<lparr>FaunaDate.value = Str (take 10 iso)\<rparr>
         \<and> take 10 iso = pad 4 y @ ''-'' @ pad 2 m @ ''-'' @ pad 2 d))
   \<and> FaunaDate_new (Str s) = Inr \<lparr>FaunaDate.value = Str s\<rparr>"
proof (intro conjI impI)
  show "FaunaDate_new (Str s) = Inr \<lparr>FaunaDate.value = Str s\<rparr>"
    by simp
  assume a: "YearMonthDate (t div msPerDay) = (y, m, d) \<and> 0 \<le> y \<and> y \<le> 9999"
  define rest where "rest = ''T''
            @ pad 2 (t div 3600000 mod 24) @ '':''
            @ pad 2 (t div 60000 mod 60) @ '':''
            @ pad 2 (t div 1000 mod 60) @ ''.''
            @ pad 3 (t mod 1000) @ ''Z''"
  define iso where "iso = pad 4 y @ ''-'' @ pad 2 m @ ''-'' @ pad 2 d @ rest"
  from a have iso: "Date_toISOString (TimeValue t) = Inr iso"
    by (simp add: iso_def rest_def YearString_four)
  have tk: "take 10 iso = pad 4 y @ ''-'' @ pad 2 m @ ''-'' @ pad 2 d"
    unfolding iso_def by (rule take_date_part) (simp_all add: length_pad)
  have "FaunaDate_new (DateV (TimeValue t)) = Inr \<lparr>FaunaDate.value = Str (take 10 iso)\<rparr>"
    using iso by (simp add: slice_take del: Date_toISOString.simps)
  with iso tk show "\<exists>iso. Date_toISOString (TimeValue t) = Inr iso
         \<and> FaunaDate_new (DateV (TimeValue t)) = Inr \<lparr>FaunaDate.value = Str (take 10 iso)\<rparr>
         \<and> take 10 iso = pad 4 y @ ''-'' @ pad 2 m @ ''-'' @ pad 2 d"
    by blast
qed

text \<open>
  The example of the specification: 2023-06-15T23:59:59Z is the time value 1686873599000.
\<close>

theorem FaunaDate_new_date_part_witness:
  "YearMonthDate (1686873599000 div msPerDay) = (2023, 6, 15) \<and> (0::int) \<le> 2023
   \<and> (2023::int) \<le> 9999
   \<and> FaunaDate_new (DateV (TimeValue 1686873599000)) = Inr \<lparr>FaunaDate.value = Str ''2023-06-15''\<rparr>"
proof -
  have h: "YearMonthDate (1686873599000 div msPerDay) = (2023, 6, 15) \<and> (0::int) \<le> 2023
      \<and> (2023::int) \<le> 9999"
    using ymd_example by simp
  obtain iso where
    "FaunaDate_new (DateV (TimeValue 1686873599000)) = Inr \<lparr>FaunaDate.value = Str (take 10 iso)\<rparr>"
    and "take 10 iso = pad 4 2023 @ ''-'' @ pad 2 6 @ ''-'' @ pad 2 15"
    using FaunaDate_new_date_part [of 1686873599000 2023 6 15] h by blast
  then have "FaunaDate_new (DateV (TimeValue 1686873599000))
      = Inr \<lparr>FaunaDate.value = Str ''2023-06-15''\<rparr>"
    by (simp only: pad_example)
  with h show ?thesis by blast
qed

text \<open>
  C8 as it is written (a native date-time object always yields a stored prefix) fails on
  an invalid \<^verbatim>\<open>Date\<close>, where \<^verbatim>\<open>toISOString()\<close> raises a \<^verbatim>\<open>RangeError\<close>.
\<close>

theorem FaunaDate_new_invalid_date: "FaunaDate_new (DateV InvalidDate) = Inl RangeError"
  by simp

text \<open>
  Beyond the years 0 to 9999 the ISO form begins with a sign and six digits of the year,
  and its first ten characters are no longer the date portion that the constructor's
  comment says they are: for 10000-01-01T00:00:00Z the stored string ends within the
  month.
\<close>

lemma FaunaDate_new_expanded_year:
  "Date_toISOString (TimeValue 253402300800000) = Inr ''+010000-01-01T00:00:00.000Z''"
  "FaunaDate_new (DateV (TimeValue 253402300800000)) = Inr \<lparr>FaunaDate.value = Str ''+010000-01''\<rparr>"
  by code_simp+

section \<open>The wire encoding\<close>

text \<open>
  C9. \<^verbatim>\<open>toJSON\<close> of each of the four classes returns the object with the single key that
  is the tag of the class, \<^verbatim>\<open>@ref\<close>, \<^verbatim>\<open>@set\<close>, \<^verbatim>\<open>@ts\<close> or \<^verbatim>\<open>@date\<close>, and under it the stored
  payload: the \<^verbatim>\<open>value\<close>, or the \<^verbatim>\<open>query\<close> of a \<^verbatim>\<open>SetRef\<close>.
\<close>

theorem toJSON_tagged:
  "Ref_toJSON r = [(''@ref'', Str (Ref.value r))]
   \<and> SetRef_toJSON q = [(''@set'', query q)]
   \<and> FaunaTime_toJSON t = [(''@ts'', Str (FaunaTime.value t))]
   \<and> FaunaDate_toJSON d = [(''@date'', FaunaDate.value d)]
   \<and> getProp (Ref_toJSON r) ''@ref'' = Str (Ref.value r)
   \<and> getProp (SetRef_toJSON q) ''@set'' = query q
   \<and> getProp (FaunaTime_toJSON t) ''@ts'' = Str (FaunaTime.value t)
   \<and> getProp (FaunaDate_toJSON d) ''@date'' = FaunaDate.value d"
  by (simp add: Ref_toJSON_def SetRef_toJSON_def FaunaTime_toJSON_def FaunaDate_toJSON_def
      getProp_def)

text \<open>The two encodings the specification gives as examples.\<close>

lemma toJSON_examples:
  "Ref_toJSON (Ref_new [SegStr ''classes/x'']) = [(''@ref'', Str ''classes/x'')]"
  "map_sum id FaunaTime_toJSON (FaunaTime_new (Str ''2023-01-01T00:00:00.000Z''))
     = Inr [(''@ts'', Str ''2023-01-01T00:00:00.000Z'')]"
  by (simp_all add: Ref_toJSON_def Ref_new_def FaunaTime_toJSON_def String_endsWith_def)

end
